theory Spec2Isabelle
  imports Main
begin

section \<open>Values of the Python program\<close>

text \<open>
  The module under verification is \<^verbatim>\<open>mopidy/http/handlers.py\<close>. A handler object is
  hashed and compared by identity, so a connection is named by a number. Every method is
  modelled as a function from the state before the call to an outcome and the state after
  it: the outcome is \<open>None\<close> when the method returns and \<open>Some e\<close> when the exception \<open>e\<close>
  leaves it. Effects that happened before an exception was raised stay in the state.
\<close>

type_synonym conn = nat

text \<open>
  A raised object is either an instance of \<^verbatim>\<open>Exception\<close>, which the clause
  \<^verbatim>\<open>except Exception as e\<close> catches, or one of the other \<^verbatim>\<open>BaseException\<close> classes
  (\<^verbatim>\<open>KeyboardInterrupt\<close>, \<^verbatim>\<open>SystemExit\<close>, \<^verbatim>\<open>GeneratorExit\<close>), which it lets through.
  The string is what \<^verbatim>\<open>'%s' % e\<close> prints.
\<close>

datatype py_exc = Exception_instance string | Other_BaseException string

fun isinstance_Exception :: "py_exc \<Rightarrow> bool" where
  "isinstance_Exception (Exception_instance _) = True"
| "isinstance_Exception (Other_BaseException _) = False"

fun exc_str :: "py_exc \<Rightarrow> string" where
  "exc_str (Exception_instance m) = m"
| "exc_str (Other_BaseException m) = m"

text \<open>
  The calls the handlers make on their collaborators (Tornado, the logger, the JSON-RPC
  wrapper), in the order they are made. \<open>Write_message\<close>, \<open>Write_body\<close> stand for a call
  that returned; a call that raised leaves no event. The socket hint, the logger, the
  header setters, \<^verbatim>\<open>close\<close>, \<^verbatim>\<open>finish\<close> and \<^verbatim>\<open>write_error\<close> are taken to return.
\<close>

datatype event =
    Set_nodelay conn
  | Setsockopt_TCP_NODELAY conn
  | Write_message conn string
  | Handle_json string
  | Close_connection conn
  | Log_debug string "string list"
  | Log_error string "string list"
  | Set_header string string
  | Write_body string
  | Write_error nat
  | Finish

section \<open>The capability table: \<^verbatim>\<open>make_jsonrpc_wrapper\<close>\<close>

text \<open>
  The six attributes of the core actor proxy that the wrapper exposes; \<open>'o\<close> is the type
  of the objects behind them.
\<close>

record 'o core_actor =
  get_uri_schemes :: 'o
  get_version :: 'o
  library :: 'o
  playback :: 'o
  playlists :: 'o
  tracklist :: 'o

text \<open>The classes and unbound methods of \<^verbatim>\<open>mopidy.core\<close> handed to the inspector.\<close>

datatype core_class =
    Core_get_uri_schemes
  | Core_get_version
  | LibraryController
  | PlaybackController
  | PlaylistsController
  | TracklistController

datatype codec = Model_json_decoder | ModelJSONEncoder

text \<open>A dict literal is an association list; \<open>map_of\<close> is the lookup.\<close>

record jsonrpc_inspector =
  inspector_objects :: "(string \<times> core_class) list"

datatype 'o rpc_object = Inspector_describe jsonrpc_inspector | Actor_target 'o

record 'o jsonrpc_wrapper =
  objects :: "(string \<times> 'o rpc_object) list"
  decoders :: "codec list"
  encoders :: "codec list"

definition make_inspector :: jsonrpc_inspector where
  "make_inspector = \<lparr>inspector_objects =
     [(''core.get_uri_schemes'', Core_get_uri_schemes),
      (''core.get_version'', Core_get_version),
      (''core.library'', LibraryController),
      (''core.playback'', PlaybackController),
      (''core.playlists'', PlaylistsController),
      (''core.tracklist'', TracklistController)]\<rparr>"

definition make_jsonrpc_wrapper :: "'o core_actor \<Rightarrow> 'o jsonrpc_wrapper" where
  "make_jsonrpc_wrapper core_actor =
     (let inspector = make_inspector in
      \<lparr>objects =
         [(''core.describe'', Inspector_describe inspector),
          (''core.get_uri_schemes'', Actor_target (get_uri_schemes core_actor)),
          (''core.get_version'', Actor_target (get_version core_actor)),
          (''core.library'', Actor_target (library core_actor)),
          (''core.playback'', Actor_target (playback core_actor)),
          (''core.playlists'', Actor_target (playlists core_actor)),
          (''core.tracklist'', Actor_target (tracklist core_actor))],
       decoders = [Model_json_decoder],
       encoders = [ModelJSONEncoder]\<rparr>)"

section \<open>The collaborators\<close>

text \<open>
  What the handlers call and this module does not define. \<open>native_str\<close> is
  \<^verbatim>\<open>tornado.escape.native_str\<close>; \<open>handle_json\<close> is the method of the wrapper built above,
  returning \<^verbatim>\<open>None\<close> or a response string; \<open>write_message\<close> and \<open>write_body\<close> are
  Tornado's \<^verbatim>\<open>WebSocketHandler.write_message\<close> and \<^verbatim>\<open>RequestHandler.write\<close>, whose
  result is kept as its truth value; \<open>mopidy_version\<close> is \<^verbatim>\<open>mopidy.__version__\<close>.
\<close>

record 'o collaborators =
  native_str :: "string \<Rightarrow> py_exc + string"
  handle_json :: "'o jsonrpc_wrapper \<Rightarrow> string \<Rightarrow> py_exc + string option"
  write_message :: "conn \<Rightarrow> string \<Rightarrow> py_exc + bool"
  write_body :: "string \<Rightarrow> py_exc + bool"
  mopidy_version :: string

section \<open>\<^verbatim>\<open>WebSocketHandler\<close>\<close>

text \<open>
  The attributes of one handler object: its identity, the wrapper set by
  \<^verbatim>\<open>initialize\<close>, whether Tornado gives it \<^verbatim>\<open>set_nodelay\<close>, whether
  \<^verbatim>\<open>ws_connection\<close> is set, and \<^verbatim>\<open>request.remote_ip\<close>.
\<close>

record 'o ws_handler =
  hid :: conn
  jsonrpc :: "'o jsonrpc_wrapper"
  has_set_nodelay :: bool
  ws_connection :: bool
  remote_ip :: string

text \<open>
  \<^verbatim>\<open>clients = set()\<close> in the class body: one set for the class, not a field of the handler
  objects. The list holds its members in the order the set iterates them; a member occurs
  once. \<open>trace\<close> is the sequence of collaborator calls made so far.
\<close>

record ws_state =
  clients :: "conn list"
  trace :: "event list"

definition class_body_state :: ws_state where
  "class_body_state = \<lparr>clients = [], trace = []\<rparr>"

text \<open>
  \<^verbatim>\<open>set.add\<close> and \<^verbatim>\<open>set.discard\<close>: adding a member that is there and discarding
  one that is not change nothing and raise nothing. Python does not say where a new member
  comes in the iteration order; it is put last here, and the theorems about
  \<^verbatim>\<open>broadcast\<close> hold for the members in any order.
\<close>

definition set_add :: "'a \<Rightarrow> 'a list \<Rightarrow> 'a list" where
  "set_add x xs = (if x \<in> set xs then xs else xs @ [x])"

definition set_discard :: "'a \<Rightarrow> 'a list \<Rightarrow> 'a list" where
  "set_discard x xs = removeAll x xs"

definition emit :: "event \<Rightarrow> ws_state \<Rightarrow> ws_state" where
  "emit ev s = s\<lparr>trace := trace s @ [ev]\<rparr>"

definition WebSocketHandler_initialize ::
  "'o ws_handler \<Rightarrow> 'o core_actor \<Rightarrow> 'o ws_handler" where
  "WebSocketHandler_initialize self core = self\<lparr>jsonrpc := make_jsonrpc_wrapper core\<rparr>"

text \<open>
  \<^verbatim>\<open>for client in cls.clients: client.write_message(msg)\<close>. The value a write
  returns is dropped; an exception from a write ends the loop and the method.
\<close>

fun broadcast_loop ::
  "'o collaborators \<Rightarrow> string \<Rightarrow> conn list \<Rightarrow> event list \<Rightarrow> py_exc option \<times> event list" where
  "broadcast_loop env msg [] tr = (None, tr)"
| "broadcast_loop env msg (client # rest) tr =
     (case write_message env client msg of
        Inl e \<Rightarrow> (Some e, tr)
      | Inr _ \<Rightarrow> broadcast_loop env msg rest (tr @ [Write_message client msg]))"

definition WebSocketHandler_broadcast ::
  "'o collaborators \<Rightarrow> string \<Rightarrow> ws_state \<Rightarrow> py_exc option \<times> ws_state" where
  "WebSocketHandler_broadcast env msg s =
     (case broadcast_loop env msg (clients s) (trace s) of
        (r, tr) \<Rightarrow> (r, s\<lparr>trace := tr\<rparr>))"

definition WebSocketHandler_open ::
  "'o ws_handler \<Rightarrow> ws_state \<Rightarrow> py_exc option \<times> ws_state" where
  "WebSocketHandler_open self s =
     (let s1 = (if has_set_nodelay self then emit (Set_nodelay (hid self)) s
                else emit (Setsockopt_TCP_NODELAY (hid self)) s);
          s2 = s1\<lparr>clients := set_add (hid self) (clients s1)\<rparr>
      in (None, emit (Log_debug ''New WebSocket connection from %s'' [remote_ip self]) s2))"

definition WebSocketHandler_on_close ::
  "'o ws_handler \<Rightarrow> ws_state \<Rightarrow> py_exc option \<times> ws_state" where
  "WebSocketHandler_on_close self s =
     (let s1 = s\<lparr>clients := set_discard (hid self) (clients s)\<rparr>
      in (None, emit (Log_debug ''Closed WebSocket connection from %s'' [remote_ip self]) s1))"

text \<open>
  \<open>on_message_try\<close> is the body of the \<^verbatim>\<open>try\<close> statement of \<^verbatim>\<open>on_message\<close>;
  \<^verbatim>\<open>response and self.write_message(response)\<close> writes only when the response is
  neither \<^verbatim>\<open>None\<close> nor empty.
\<close>

definition on_message_try ::
  "'o collaborators \<Rightarrow> 'o ws_handler \<Rightarrow> string \<Rightarrow> ws_state \<Rightarrow> py_exc option \<times> ws_state" where
  "on_message_try env self message s =
     (case native_str env message of
        Inl e \<Rightarrow> (Some e, s)
      | Inr str \<Rightarrow>
          (let s1 = emit (Handle_json str) s in
           case handle_json env (jsonrpc self) str of
             Inl e \<Rightarrow> (Some e, s1)
           | Inr None \<Rightarrow> (None, s1)
           | Inr (Some response) \<Rightarrow>
               (if response = [] then (None, s1)
                else case write_message env (hid self) response of
                       Inl e \<Rightarrow> (Some e, s1)
                     | Inr sent \<Rightarrow>
                         (let s2 = emit (Write_message (hid self) response) s1 in
                          if sent
                          then (None, emit (Log_debug ''Sent WebSocket message to %s: %r''
                                              [remote_ip self, response]) s2)
                          else (None, s2)))))"

definition WebSocketHandler_on_message ::
  "'o collaborators \<Rightarrow> 'o ws_handler \<Rightarrow> string \<Rightarrow> ws_state \<Rightarrow> py_exc option \<times> ws_state" where
  "WebSocketHandler_on_message env self message s =
     (if message = [] then (None, s)
      else
        (let s1 = emit (Log_debug ''Received WebSocket message from %s: %r''
                          [remote_ip self, message]) s in
         case on_message_try env self message s1 of
           (None, s2) \<Rightarrow> (None, s2)
         | (Some e, s2) \<Rightarrow>
             (if isinstance_Exception e
              then (let s3 = emit (Log_error ''WebSocket request error: %s'' [exc_str e]) s2 in
                    if ws_connection self
                    then (None, emit (Close_connection (hid self)) s3)
                    else (None, s3))
              else (Some e, s2))))"

definition check_origin :: "'o ws_handler \<Rightarrow> string \<Rightarrow> bool" where
  "check_origin self origin = True"

section \<open>\<^verbatim>\<open>JsonRpcHandler\<close>\<close>

text \<open>
  One handler object serves one request; \<open>request_body\<close> is \<^verbatim>\<open>self.request.body\<close>. The
  state of a request is the sequence of calls made so far.
\<close>

record 'o rpc_handler =
  rpc_jsonrpc :: "'o jsonrpc_wrapper"
  request_body :: string
  request_remote_ip :: string

definition JsonRpcHandler_initialize ::
  "'o rpc_handler \<Rightarrow> 'o core_actor \<Rightarrow> 'o rpc_handler" where
  "JsonRpcHandler_initialize self core = self\<lparr>rpc_jsonrpc := make_jsonrpc_wrapper core\<rparr>"

definition set_mopidy_headers :: "'o collaborators \<Rightarrow> event list \<Rightarrow> event list" where
  "set_mopidy_headers env tr =
     tr @ [Set_header ''Cache-Control'' ''no-cache'',
           Set_header ''X-Mopidy-Version'' (mopidy_version env)]"

definition set_extra_headers :: "'o collaborators \<Rightarrow> event list \<Rightarrow> event list" where
  "set_extra_headers env tr =
     set_mopidy_headers env tr @
       [Set_header ''Accept'' ''application/json'',
        Set_header ''Content-Type'' ''application/json; utf-8'']"

definition JsonRpcHandler_head ::
  "'o collaborators \<Rightarrow> 'o rpc_handler \<Rightarrow> event list \<Rightarrow> py_exc option \<times> event list" where
  "JsonRpcHandler_head env self tr = (None, set_extra_headers env tr @ [Finish])"

text \<open>\<open>post_try\<close> is the body of the \<^verbatim>\<open>try\<close> statement of \<^verbatim>\<open>post\<close>.\<close>

definition post_try ::
  "'o collaborators \<Rightarrow> 'o rpc_handler \<Rightarrow> string \<Rightarrow> event list \<Rightarrow> py_exc option \<times> event list" where
  "post_try env self data tr =
     (let tr1 = set_extra_headers env tr in
      case native_str env data of
        Inl e \<Rightarrow> (Some e, tr1)
      | Inr str \<Rightarrow>
          (let tr2 = tr1 @ [Handle_json str] in
           case handle_json env (rpc_jsonrpc self) str of
             Inl e \<Rightarrow> (Some e, tr2)
           | Inr None \<Rightarrow> (None, tr2)
           | Inr (Some response) \<Rightarrow>
               (if response = [] then (None, tr2)
                else case write_body env response of
                       Inl e \<Rightarrow> (Some e, tr2)
                     | Inr written \<Rightarrow>
                         (let tr3 = tr2 @ [Write_body response] in
                          if written
                          then (None, tr3 @ [Log_debug ''Sent RPC message to %s: %r''
                                               [request_remote_ip self, response]])
                          else (None, tr3)))))"

definition JsonRpcHandler_post ::
  "'o collaborators \<Rightarrow> 'o rpc_handler \<Rightarrow> event list \<Rightarrow> py_exc option \<times> event list" where
  "JsonRpcHandler_post env self tr =
     (let data = request_body self in
      if data = [] then (None, tr)
      else
        (let tr1 = tr @ [Log_debug ''Received RPC message from %s: %r''
                           [request_remote_ip self, data]] in
         case post_try env self data tr1 of
           (None, tr2) \<Rightarrow> (None, tr2)
         | (Some e, tr2) \<Rightarrow>
             (if isinstance_Exception e
              then (None, tr2 @ [Log_error ''HTTP JSON-RPC request error: %s'' [exc_str e],
                                 Write_error 500])
              else (Some e, tr2))))"

section \<open>Sequences of connection events\<close>

text \<open>
  Tornado calls \<^verbatim>\<open>open\<close> when a WebSocket connection is established and \<^verbatim>\<open>on_close\<close>
  when it is gone. \<open>ws_run\<close> performs a sequence of such calls, oldest first.
\<close>

datatype 'o ws_call = Call_open "'o ws_handler" | Call_on_close "'o ws_handler"

fun ws_call_step :: "'o ws_call \<Rightarrow> ws_state \<Rightarrow> ws_state" where
  "ws_call_step (Call_open self) s = snd (WebSocketHandler_open self s)"
| "ws_call_step (Call_on_close self) s = snd (WebSocketHandler_on_close self s)"

fun ws_run :: "'o ws_call list \<Rightarrow> ws_state \<Rightarrow> ws_state" where
  "ws_run [] s = s"
| "ws_run (call # calls) s = ws_run calls (ws_call_step call s)"

fun call_conn :: "'o ws_call \<Rightarrow> conn" where
  "call_conn (Call_open self) = hid self"
| "call_conn (Call_on_close self) = hid self"

fun is_open_call :: "'o ws_call \<Rightarrow> bool" where
  "is_open_call (Call_open _) = True"
| "is_open_call (Call_on_close _) = False"

text \<open>
  The specification's side of the registry invariant, not taken from the code: a
  connection has opened and not yet closed when the sequence mentions it and the latest
  call that mentions it is an \<^verbatim>\<open>open\<close>.
\<close>

definition opened_and_not_yet_closed :: "'o ws_call list \<Rightarrow> conn \<Rightarrow> bool" where
  "opened_and_not_yet_closed calls c =
     (case rev (filter (\<lambda>call. call_conn call = c) calls) of
        [] \<Rightarrow> False
      | latest # _ \<Rightarrow> is_open_call latest)"

section \<open>Reading a trace\<close>

fun is_Handle_json :: "event \<Rightarrow> bool" where
  "is_Handle_json (Handle_json _) = True"
| "is_Handle_json _ = False"

fun is_written :: "event \<Rightarrow> bool" where
  "is_written (Write_message _ _) = True"
| "is_written (Write_body _) = True"
| "is_written (Write_error _) = True"
| "is_written _ = False"

text \<open>What reaches the HTTP response: headers, body, error page, end of response.\<close>

fun response_event :: "event \<Rightarrow> bool" where
  "response_event (Set_header _ _) = True"
| "response_event (Write_body _) = True"
| "response_event (Write_error _) = True"
| "response_event Finish = True"
| "response_event _ = False"

text \<open>The value a response header has after a sequence of calls: the latest one set.\<close>

fun header_value :: "event list \<Rightarrow> string \<Rightarrow> string option" where
  "header_value [] name = None"
| "header_value (Set_header n v # evs) name =
     (case header_value evs name of
        Some later \<Rightarrow> Some later
      | None \<Rightarrow> (if n = name then Some v else None))"
| "header_value (_ # evs) name = header_value evs name"

section \<open>Sample inputs\<close>

definition sample_core :: "string core_actor" where
  "sample_core = \<lparr>get_uri_schemes = ''actor.get_uri_schemes'',
                   get_version = ''actor.get_version'',
                   library = ''actor.library'',
                   playback = ''actor.playback'',
                   playlists = ''actor.playlists'',
                   tracklist = ''actor.tracklist''\<rparr>"

text \<open>
  Collaborators for the examples: the dispatcher fails on \<open>''boom''\<close>, answers nothing to
  \<open>''notify''\<close> and \<open>''pong''\<close> to anything else; writing to connection 1 fails.
\<close>

definition sample_env :: "string collaborators" where
  "sample_env =
     \<lparr>native_str = Inr,
      handle_json = (\<lambda>w str.
         if str = ''boom'' then Inl (Exception_instance ''KeyError: boom'')
         else if str = ''notify'' then Inr None
         else Inr (Some ''pong'')),
      write_message = (\<lambda>c m.
         if c = 1 then Inl (Exception_instance ''WebSocketClosedError'') else Inr False),
      write_body = (\<lambda>chunk. Inr False),
      mopidy_version = ''0.19.4''\<rparr>"

definition sample_ws_handler :: "conn \<Rightarrow> bool \<Rightarrow> string ws_handler" where
  "sample_ws_handler c usable =
     \<lparr>hid = c, jsonrpc = make_jsonrpc_wrapper sample_core, has_set_nodelay = True,
      ws_connection = usable, remote_ip = ''127.0.0.1''\<rparr>"

definition sample_rpc_handler :: "string \<Rightarrow> string rpc_handler" where
  "sample_rpc_handler data =
     \<lparr>rpc_jsonrpc = make_jsonrpc_wrapper sample_core, request_body = data,
      request_remote_ip = ''127.0.0.1''\<rparr>"

section \<open>The connection registry\<close>

lemma set_set_add: "set (set_add x xs) = insert x (set xs)"
  by (auto simp: set_add_def)

lemma distinct_set_add: "distinct xs \<Longrightarrow> distinct (set_add x xs)"
  by (simp add: set_add_def)

lemma set_set_discard: "set (set_discard x xs) = set xs - {x}"
  by (auto simp: set_discard_def)

lemma distinct_set_discard: "distinct xs \<Longrightarrow> distinct (set_discard x xs)"
  by (simp add: set_discard_def distinct_removeAll)

lemma set_discard_absent: "x \<notin> set xs \<Longrightarrow> set_discard x xs = xs"
  by (simp add: set_discard_def)

lemma clients_open:
  "clients (snd (WebSocketHandler_open self s)) = set_add (hid self) (clients s)"
  by (simp add: WebSocketHandler_open_def emit_def Let_def)

lemma clients_on_close:
  "clients (snd (WebSocketHandler_on_close self s)) = set_discard (hid self) (clients s)"
  by (simp add: WebSocketHandler_on_close_def emit_def Let_def)

lemma clients_step:
  "set (clients (ws_call_step call s)) =
     (if is_open_call call then insert (call_conn call) (set (clients s))
      else set (clients s) - {call_conn call})"
  by (cases call) (simp_all add: clients_open clients_on_close set_set_add set_set_discard)

lemma distinct_step: "distinct (clients s) \<Longrightarrow> distinct (clients (ws_call_step call s))"
  by (cases call)
     (simp_all add: clients_open clients_on_close distinct_set_add distinct_set_discard)

lemma ws_run_append: "ws_run (calls @ later) s = ws_run later (ws_run calls s)"
  by (induction calls arbitrary: s) simp_all

lemma distinct_ws_run: "distinct (clients s) \<Longrightarrow> distinct (clients (ws_run calls s))"
  by (induction calls arbitrary: s) (simp_all add: distinct_step)

lemma opened_snoc:
  "opened_and_not_yet_closed (calls @ [call]) c =
     (if call_conn call = c then is_open_call call else opened_and_not_yet_closed calls c)"
  by (simp add: opened_and_not_yet_closed_def)

lemma registry_after_run:
  "c \<in> set (clients (ws_run calls s)) \<longleftrightarrow>
     (if \<exists>call \<in> set calls. call_conn call = c then opened_and_not_yet_closed calls c
      else c \<in> set (clients s))"
proof (induction calls rule: rev_induct)
  case Nil
  show ?case by simp
next
  case (snoc call calls)
  show ?case
  proof (cases "call_conn call = c")
    case True
    then show ?thesis
      by (simp add: ws_run_append clients_step opened_snoc)
  next
    case False
    then show ?thesis
      using snoc.IH by (auto simp: ws_run_append clients_step opened_snoc)
  qed
qed

lemma opened_mentions:
  "opened_and_not_yet_closed calls c \<Longrightarrow> \<exists>call \<in> set calls. call_conn call = c"
proof (induction calls rule: rev_induct)
  case Nil
  then show ?case by (simp add: opened_and_not_yet_closed_def)
next
  case (snoc call calls)
  then show ?case by (auto simp: opened_snoc split: if_splits)
qed

text \<open>
  The same in the words of the invariant: some \<^verbatim>\<open>open\<close> of the connection is followed
  by no \<^verbatim>\<open>on_close\<close> of it.
\<close>

lemma opened_and_not_yet_closed_iff:
  "opened_and_not_yet_closed calls c \<longleftrightarrow>
     (\<exists>before h after. calls = before @ Call_open h # after \<and> hid h = c
        \<and> (\<forall>x \<in> set after. is_open_call x \<or> call_conn x \<noteq> c))"
    (is "?lhs calls \<longleftrightarrow> ?rhs calls")
proof
  show "?lhs calls \<Longrightarrow> ?rhs calls"
  proof (induction calls rule: rev_induct)
    case Nil
    then show ?case by (simp add: opened_and_not_yet_closed_def)
  next
    case (snoc x calls)
    show ?case
    proof (cases "call_conn x = c")
      case True
      with snoc.prems have "is_open_call x" by (simp add: opened_snoc)
      then obtain h where "x = Call_open h" by (cases x) simp_all
      with True have "calls @ [x] = calls @ Call_open h # [] \<and> hid h = c
          \<and> (\<forall>y \<in> set []. is_open_call y \<or> call_conn y \<noteq> c)"
        by simp
      then show ?thesis by blast
    next
      case False
      with snoc.prems have "?lhs calls" by (simp add: opened_snoc)
      then obtain before h after where "calls = before @ Call_open h # after" "hid h = c"
        "\<forall>y \<in> set after. is_open_call y \<or> call_conn y \<noteq> c"
        using snoc.IH by blast
      with False have "calls @ [x] = before @ Call_open h # (after @ [x]) \<and> hid h = c
          \<and> (\<forall>y \<in> set (after @ [x]). is_open_call y \<or> call_conn y \<noteq> c)"
        by simp
      then show ?thesis by blast
    qed
  qed
next
  assume "?rhs calls"
  then obtain before h after where calls: "calls = before @ Call_open h # after"
    and h: "hid h = c"
    and after: "\<forall>y \<in> set after. is_open_call y \<or> call_conn y \<noteq> c"
    by blast
  from after have "opened_and_not_yet_closed (before @ Call_open h # after) c"
  proof (induction after rule: rev_induct)
    case Nil
    from h show ?case using opened_snoc [of before "Call_open h" c] by simp
  next
    case (snoc x after)
    then show ?case
      using opened_snoc [of "before @ Call_open h # after" x c] by auto
  qed
  with calls show "?lhs calls" by simp
qed

text \<open>
  C2. Starting from the empty set of the class body, after any sequence of
  \<^verbatim>\<open>open\<close> and \<^verbatim>\<open>on_close\<close> calls the registry holds exactly the connections that
  have opened and not yet closed, each once. Whatever the state, \<^verbatim>\<open>open\<close> and
  \<^verbatim>\<open>on_close\<close> return without an exception, the registry contains the connection after
  its \<^verbatim>\<open>open\<close> and does not contain it after its \<^verbatim>\<open>on_close\<close>, and \<^verbatim>\<open>on_close\<close> of
  a connection that is not registered leaves the registry as it was.
\<close>

theorem registry_tracks_open_connections:
  "set (clients (ws_run calls class_body_state)) = {c. opened_and_not_yet_closed calls c}
   \<and> distinct (clients (ws_run calls class_body_state))
   \<and> fst (WebSocketHandler_open self s) = None
   \<and> hid self \<in> set (clients (snd (WebSocketHandler_open self s)))
   \<and> fst (WebSocketHandler_on_close self s) = None
   \<and> hid self \<notin> set (clients (snd (WebSocketHandler_on_close self s)))
   \<and> (hid self \<notin> set (clients s) \<longrightarrow>
        clients (snd (WebSocketHandler_on_close self s)) = clients s)"
proof -
  have members: "set (clients (ws_run calls class_body_state)) =
      {c. opened_and_not_yet_closed calls c}"
  proof (rule set_eqI)
    fix c
    show "c \<in> set (clients (ws_run calls class_body_state)) \<longleftrightarrow>
        c \<in> {c. opened_and_not_yet_closed calls c}"
      using opened_mentions [of calls c]
      by (simp add: registry_after_run class_body_state_def) blast
  qed
  have once: "distinct (clients (ws_run calls class_body_state))"
    by (rule distinct_ws_run) (simp add: class_body_state_def)
  have returns: "fst (WebSocketHandler_open self s) = None"
    "fst (WebSocketHandler_on_close self s) = None"
    by (simp_all add: WebSocketHandler_open_def WebSocketHandler_on_close_def Let_def)
  have present: "hid self \<in> set (clients (snd (WebSocketHandler_open self s)))"
    by (simp add: clients_open set_set_add)
  have absent: "hid self \<notin> set (clients (snd (WebSocketHandler_on_close self s)))"
    by (simp add: clients_on_close set_set_discard)
  have noop: "hid self \<notin> set (clients s) \<longrightarrow>
      clients (snd (WebSocketHandler_on_close self s)) = clients s"
    by (simp add: clients_on_close set_discard_absent)
  from members once returns present absent noop show ?thesis by blast
qed

theorem registry_tracks_open_connections_witness:
  "clients (ws_run [Call_open (sample_ws_handler 1 True), Call_open (sample_ws_handler 2 True),
                    Call_on_close (sample_ws_handler 1 True),
                    Call_on_close (sample_ws_handler 3 True),
                    Call_open (sample_ws_handler 2 True)] class_body_state) = [2]
   \<and> 3 \<notin> set (clients \<lparr>clients = [2], trace = []\<rparr>)
   \<and> clients (snd (WebSocketHandler_on_close (sample_ws_handler 3 True)
                     \<lparr>clients = [2], trace = []\<rparr>)) = [2]
   \<and> fst (WebSocketHandler_on_close (sample_ws_handler 3 True)
             \<lparr>clients = [2], trace = []\<rparr>) = None
   \<and> clients (snd (WebSocketHandler_open (sample_ws_handler 3 True)
                     \<lparr>clients = [2], trace = []\<rparr>)) = [2, 3]"
proof -
  note inst = registry_tracks_open_connections
    [where calls = "[Call_open (sample_ws_handler 1 True), Call_open (sample_ws_handler 2 True),
          Call_on_close (sample_ws_handler 1 True),
          Call_on_close (sample_ws_handler 3 True),
          Call_open (sample_ws_handler 2 True)]"
       and self = "sample_ws_handler 3 True" and s = "\<lparr>clients = [2], trace = []\<rparr>"]
  have run: "clients (ws_run [Call_open (sample_ws_handler 1 True),
      Call_open (sample_ws_handler 2 True), Call_on_close (sample_ws_handler 1 True),
      Call_on_close (sample_ws_handler 3 True),
      Call_open (sample_ws_handler 2 True)] class_body_state) = [2]"
    by (simp add: class_body_state_def sample_ws_handler_def WebSocketHandler_open_def
        WebSocketHandler_on_close_def emit_def set_add_def set_discard_def Let_def)
  have opened: "clients (snd (WebSocketHandler_open (sample_ws_handler 3 True)
      \<lparr>clients = [2], trace = []\<rparr>)) = [2, 3]"
    by (simp add: sample_ws_handler_def WebSocketHandler_open_def emit_def set_add_def Let_def)
  have absent: "3 \<notin> set (clients \<lparr>clients = [2], trace = []\<rparr>)"
    by simp
  have hid3: "hid (sample_ws_handler 3 True) = 3"
    by (simp add: sample_ws_handler_def)
  from inst absent hid3 have closed:
    "clients (snd (WebSocketHandler_on_close (sample_ws_handler 3 True)
       \<lparr>clients = [2], trace = []\<rparr>)) = [2]
     \<and> fst (WebSocketHandler_on_close (sample_ws_handler 3 True)
         \<lparr>clients = [2], trace = []\<rparr>) = None"
    by simp
  from run opened absent closed show ?thesis by simp
qed

section \<open>Broadcast\<close>

lemma broadcast_loop_all_return:
  "\<forall>c \<in> set cs. \<exists>r. write_message env c msg = Inr r \<Longrightarrow>
     broadcast_loop env msg cs tr = (None, tr @ map (\<lambda>c. Write_message c msg) cs)"
  by (induction cs arbitrary: tr) auto

lemma broadcast_loop_first_raise:
  "\<forall>b \<in> set before. \<exists>r. write_message env b msg = Inr r \<Longrightarrow>
   write_message env c msg = Inl e \<Longrightarrow>
     broadcast_loop env msg (before @ c # after) tr =
       (Some e, tr @ map (\<lambda>b. Write_message b msg) before)"
  by (induction before arbitrary: tr) auto

text \<open>
  C1, as the code has it. \<^verbatim>\<open>broadcast\<close> has no handler around
  \<^verbatim>\<open>client.write_message(msg)\<close>. When every write returns, each registered connection is
  written \<open>msg\<close> once, in iteration order, and \<^verbatim>\<open>broadcast\<close> returns. When the write to
  a connection raises, the loop ends there: the exception leaves \<^verbatim>\<open>broadcast\<close>, the
  connections iterated before it have been written to and those after it have not.
\<close>

theorem broadcast_stops_at_first_failure:
  "((\<forall>c \<in> set (clients s). \<exists>r. write_message env c msg = Inr r) \<longrightarrow>
      WebSocketHandler_broadcast env msg s =
        (None, s\<lparr>trace := trace s @ map (\<lambda>c. Write_message c msg) (clients s)\<rparr>))
   \<and> (clients s = before @ c # after
        \<and> (\<forall>b \<in> set before. \<exists>r. write_message env b msg = Inr r)
        \<and> write_message env c msg = Inl e \<longrightarrow>
      WebSocketHandler_broadcast env msg s =
        (Some e, s\<lparr>trace := trace s @ map (\<lambda>b. Write_message b msg) before\<rparr>))"
proof (intro conjI impI)
  assume "\<forall>c \<in> set (clients s). \<exists>r. write_message env c msg = Inr r"
  then show "WebSocketHandler_broadcast env msg s =
      (None, s\<lparr>trace := trace s @ map (\<lambda>c. Write_message c msg) (clients s)\<rparr>)"
    by (simp add: WebSocketHandler_broadcast_def broadcast_loop_all_return)
next
  assume a: "clients s = before @ c # after
      \<and> (\<forall>b \<in> set before. \<exists>r. write_message env b msg = Inr r)
      \<and> write_message env c msg = Inl e"
  then have "broadcast_loop env msg (clients s) (trace s) =
      (Some e, trace s @ map (\<lambda>b. Write_message b msg) before)"
    by (simp add: broadcast_loop_first_raise)
  then show "WebSocketHandler_broadcast env msg s =
      (Some e, s\<lparr>trace := trace s @ map (\<lambda>b. Write_message b msg) before\<rparr>)"
    by (simp add: WebSocketHandler_broadcast_def)
qed

theorem broadcast_stops_at_first_failure_witness:
  "WebSocketHandler_broadcast sample_env ''event'' \<lparr>clients = [2, 3], trace = []\<rparr> =
     (None, \<lparr>clients = [2, 3],
             trace = [Write_message 2 ''event'', Write_message 3 ''event'']\<rparr>)
   \<and> write_message sample_env 1 ''event'' = Inl (Exception_instance ''WebSocketClosedError'')
   \<and> WebSocketHandler_broadcast sample_env ''event'' \<lparr>clients = [2, 1, 3], trace = []\<rparr> =
     (Some (Exception_instance ''WebSocketClosedError''),
      \<lparr>clients = [2, 1, 3], trace = [Write_message 2 ''event'']\<rparr>)"
proof -
  have w1: "write_message sample_env 1 ''event'' = Inl (Exception_instance ''WebSocketClosedError'')"
    and w2: "write_message sample_env 2 ''event'' = Inr False"
    and w3: "write_message sample_env 3 ''event'' = Inr False"
    by (simp_all add: sample_env_def)
  have all_return: "\<forall>c \<in> set (clients \<lparr>clients = [2, 3], trace = []\<rparr>).
      \<exists>r. write_message sample_env c ''event'' = Inr r"
    using w2 w3 by auto
  have one_raises: "clients \<lparr>clients = [2, 1, 3], trace = []\<rparr> = [2] @ 1 # [3]
      \<and> (\<forall>b \<in> set [2]. \<exists>r. write_message sample_env b ''event'' = Inr r)
      \<and> write_message sample_env 1 ''event'' = Inl (Exception_instance ''WebSocketClosedError'')"
    using w1 w2 by auto
  from all_return one_raises w1
    broadcast_stops_at_first_failure
      [where s = "\<lparr>clients = [2, 3], trace = []\<rparr>" and env = sample_env and msg = "''event''"]
    broadcast_stops_at_first_failure
      [where s = "\<lparr>clients = [2, 1, 3], trace = []\<rparr>" and env = sample_env
         and msg = "''event''" and before = "[2]" and c = 1 and after = "[3]"
         and e = "Exception_instance ''WebSocketClosedError''"]
  show ?thesis by simp
qed

text \<open>
  The claim as the specification words it fails. Connections 1 and 2 are registered and
  the write to connection 1 raises. Whichever of the two the set iterates first, the
  exception leaves \<^verbatim>\<open>broadcast\<close>; when connection 1 comes first, connection 2, whose
  write would return, is not written to.
\<close>

theorem broadcast_failure_not_isolated:
  "write_message sample_env 2 ''event'' = Inr False
   \<and> WebSocketHandler_broadcast sample_env ''event'' \<lparr>clients = [1, 2], trace = []\<rparr> =
       (Some (Exception_instance ''WebSocketClosedError''), \<lparr>clients = [1, 2], trace = []\<rparr>)
   \<and> WebSocketHandler_broadcast sample_env ''event'' \<lparr>clients = [2, 1], trace = []\<rparr> =
       (Some (Exception_instance ''WebSocketClosedError''),
        \<lparr>clients = [2, 1], trace = [Write_message 2 ''event'']\<rparr>)"
  by (simp add: WebSocketHandler_broadcast_def sample_env_def)

lemma members_after_run:
  "set (clients (ws_run calls class_body_state)) = {c. opened_and_not_yet_closed calls c}"
proof (rule set_eqI)
  fix c
  show "c \<in> set (clients (ws_run calls class_body_state)) \<longleftrightarrow>
      c \<in> {c. opened_and_not_yet_closed calls c}"
    using opened_mentions [of calls c]
    by (simp add: registry_after_run class_body_state_def) blast
qed

text \<open>
  C9, as the code has it. The registry is the one set of the class: handler objects
  initialised for any two core actors (two gateway applications) register in it side by
  side, and after any sequence of \<^verbatim>\<open>open\<close> and \<^verbatim>\<open>on_close\<close> calls by any handlers
  it holds the connections that have opened and not yet closed, whatever wrapper each
  handler carries. \<^verbatim>\<open>broadcast\<close> iterates over all of it. When every write returns,
  each of these connections is written \<open>msg\<close> once and \<^verbatim>\<open>broadcast\<close> returns. When a
  write raises, \<^verbatim>\<open>broadcast\<close> ends there with the exception: the connections iterated
  before it have been written to, the others have not.
\<close>

theorem shared_registry_broadcast:
  "{hid h1, hid h2} \<subseteq> set (clients (snd (WebSocketHandler_open (WebSocketHandler_initialize h2 core2)
                        (snd (WebSocketHandler_open (WebSocketHandler_initialize h1 core1) s)))))
   \<and> set (clients (ws_run calls class_body_state)) = {c. opened_and_not_yet_closed calls c}
   \<and> ((\<forall>c \<in> set (clients (ws_run calls class_body_state)).
          \<exists>r. write_message env c msg = Inr r) \<longrightarrow>
        WebSocketHandler_broadcast env msg (ws_run calls class_body_state) =
          (None, (ws_run calls class_body_state)
             \<lparr>trace := trace (ws_run calls class_body_state)
                @ map (\<lambda>c. Write_message c msg) (clients (ws_run calls class_body_state))\<rparr>)
        \<and> (\<forall>c. opened_and_not_yet_closed calls c \<longrightarrow>
              Write_message c msg \<in> set (trace (snd (WebSocketHandler_broadcast env msg
                                                    (ws_run calls class_body_state))))))
   \<and> (clients (ws_run calls class_body_state) = before @ c # after
        \<and> (\<forall>b \<in> set before. \<exists>r. write_message env b msg = Inr r)
        \<and> write_message env c msg = Inl e \<longrightarrow>
        WebSocketHandler_broadcast env msg (ws_run calls class_body_state) =
          (Some e, (ws_run calls class_body_state)
             \<lparr>trace := trace (ws_run calls class_body_state)
                @ map (\<lambda>b. Write_message b msg) before\<rparr>))"
proof -
  let ?s = "ws_run calls class_body_state"
  have ids: "hid (WebSocketHandler_initialize h1 core1) = hid h1"
    "hid (WebSocketHandler_initialize h2 core2) = hid h2"
    by (simp_all add: WebSocketHandler_initialize_def)
  have both: "{hid h1, hid h2} \<subseteq>
      set (clients (snd (WebSocketHandler_open (WebSocketHandler_initialize h2 core2)
        (snd (WebSocketHandler_open (WebSocketHandler_initialize h1 core1) s)))))"
    by (simp add: clients_open set_set_add ids)
  have members: "set (clients ?s) = {c. opened_and_not_yet_closed calls c}"
    by (rule members_after_run)
  have delivered: "(\<forall>c \<in> set (clients ?s). \<exists>r. write_message env c msg = Inr r) \<longrightarrow>
      WebSocketHandler_broadcast env msg ?s =
        (None, ?s\<lparr>trace := trace ?s @ map (\<lambda>c. Write_message c msg) (clients ?s)\<rparr>)
      \<and> (\<forall>c. opened_and_not_yet_closed calls c \<longrightarrow>
            Write_message c msg \<in> set (trace (snd (WebSocketHandler_broadcast env msg ?s))))"
  proof
    assume ok: "\<forall>c \<in> set (clients ?s). \<exists>r. write_message env c msg = Inr r"
    then have result: "WebSocketHandler_broadcast env msg ?s =
        (None, ?s\<lparr>trace := trace ?s @ map (\<lambda>c. Write_message c msg) (clients ?s)\<rparr>)"
      by (simp add: WebSocketHandler_broadcast_def broadcast_loop_all_return)
    have "Write_message c msg \<in> set (trace (snd (WebSocketHandler_broadcast env msg ?s)))"
      if "opened_and_not_yet_closed calls c" for c
    proof -
      from that members have "c \<in> set (clients ?s)" by simp
      then show ?thesis unfolding result by simp
    qed
    with result show "WebSocketHandler_broadcast env msg ?s =
        (None, ?s\<lparr>trace := trace ?s @ map (\<lambda>c. Write_message c msg) (clients ?s)\<rparr>)
      \<and> (\<forall>c. opened_and_not_yet_closed calls c \<longrightarrow>
            Write_message c msg \<in> set (trace (snd (WebSocketHandler_broadcast env msg ?s))))"
      by blast
  qed
  have stopped: "clients ?s = before @ c # after
        \<and> (\<forall>b \<in> set before. \<exists>r. write_message env b msg = Inr r)
        \<and> write_message env c msg = Inl e \<longrightarrow>
      WebSocketHandler_broadcast env msg ?s =
        (Some e, ?s\<lparr>trace := trace ?s @ map (\<lambda>b. Write_message b msg) before\<rparr>)"
  proof
    assume a: "clients ?s = before @ c # after
        \<and> (\<forall>b \<in> set before. \<exists>r. write_message env b msg = Inr r)
        \<and> write_message env c msg = Inl e"
    then have "broadcast_loop env msg (clients ?s) (trace ?s) =
        (Some e, trace ?s @ map (\<lambda>b. Write_message b msg) before)"
      by (simp add: broadcast_loop_first_raise)
    then show "WebSocketHandler_broadcast env msg ?s =
        (Some e, ?s\<lparr>trace := trace ?s @ map (\<lambda>b. Write_message b msg) before\<rparr>)"
      by (simp add: WebSocketHandler_broadcast_def)
  qed
  from both members delivered stopped show ?thesis by blast
qed

theorem shared_registry_broadcast_witness:
  "clients (ws_run [Call_open (WebSocketHandler_initialize (sample_ws_handler 2 False)
                                 (sample_core\<lparr>library := ''other_actor.library''\<rparr>)),
                    Call_open (WebSocketHandler_initialize (sample_ws_handler 3 True) sample_core)]
              class_body_state) = [2, 3]
   \<and> write_message sample_env 2 ''event'' = Inr False
   \<and> write_message sample_env 3 ''event'' = Inr False
   \<and> fst (WebSocketHandler_broadcast sample_env ''event''
        (ws_run [Call_open (WebSocketHandler_initialize (sample_ws_handler 2 False)
                              (sample_core\<lparr>library := ''other_actor.library''\<rparr>)),
                 Call_open (WebSocketHandler_initialize (sample_ws_handler 3 True) sample_core)]
           class_body_state)) = None
   \<and> filter is_written (trace (snd (WebSocketHandler_broadcast sample_env ''event''
        (ws_run [Call_open (WebSocketHandler_initialize (sample_ws_handler 2 False)
                              (sample_core\<lparr>library := ''other_actor.library''\<rparr>)),
                 Call_open (WebSocketHandler_initialize (sample_ws_handler 3 True) sample_core)]
           class_body_state)))) = [Write_message 2 ''event'', Write_message 3 ''event'']
   \<and> write_message sample_env 1 ''event'' = Inl (Exception_instance ''WebSocketClosedError'')
   \<and> clients (ws_run [Call_open (sample_ws_handler 2 True), Call_open (sample_ws_handler 1 True),
                      Call_open (sample_ws_handler 3 True)] class_body_state) = [2, 1, 3]
   \<and> fst (WebSocketHandler_broadcast sample_env ''event''
        (ws_run [Call_open (sample_ws_handler 2 True), Call_open (sample_ws_handler 1 True),
                 Call_open (sample_ws_handler 3 True)] class_body_state)) =
       Some (Exception_instance ''WebSocketClosedError'')
   \<and> filter is_written (trace (snd (WebSocketHandler_broadcast sample_env ''event''
        (ws_run [Call_open (sample_ws_handler 2 True), Call_open (sample_ws_handler 1 True),
                 Call_open (sample_ws_handler 3 True)] class_body_state)))) =
       [Write_message 2 ''event'']"
proof -
  let ?three = "[Call_open (sample_ws_handler 2 True), Call_open (sample_ws_handler 1 True),
                 Call_open (sample_ws_handler 3 True)]"
  have registered3: "clients (ws_run ?three class_body_state) = [2, 1, 3]"
    by (simp add: class_body_state_def sample_ws_handler_def WebSocketHandler_open_def
        emit_def set_add_def Let_def)
  have logged3: "filter is_written (trace (ws_run ?three class_body_state)) = []"
    by (simp add: class_body_state_def sample_ws_handler_def WebSocketHandler_open_def
        emit_def set_add_def Let_def)
  have w1: "write_message sample_env 1 ''event'' = Inl (Exception_instance ''WebSocketClosedError'')"
    by (simp add: sample_env_def)
  have one_raises: "clients (ws_run ?three class_body_state) = [2] @ 1 # [3]
      \<and> (\<forall>b \<in> set [2]. \<exists>r. write_message sample_env b ''event'' = Inr r)
      \<and> write_message sample_env 1 ''event'' = Inl (Exception_instance ''WebSocketClosedError'')"
    unfolding registered3 by (auto simp: sample_env_def)
  from shared_registry_broadcast
      [where calls = ?three and env = sample_env and msg = "''event''" and before = "[2]"
         and c = 1 and after = "[3]" and e = "Exception_instance ''WebSocketClosedError''"]
    one_raises
  have result3: "WebSocketHandler_broadcast sample_env ''event'' (ws_run ?three class_body_state) =
      (Some (Exception_instance ''WebSocketClosedError''), (ws_run ?three class_body_state)
         \<lparr>trace := trace (ws_run ?three class_body_state)
            @ map (\<lambda>b. Write_message b ''event'') [2]\<rparr>)"
    by blast
  have stopped: "fst (WebSocketHandler_broadcast sample_env ''event''
        (ws_run ?three class_body_state)) = Some (Exception_instance ''WebSocketClosedError'')"
    "filter is_written (trace (snd (WebSocketHandler_broadcast sample_env ''event''
        (ws_run ?three class_body_state)))) = [Write_message 2 ''event'']"
    unfolding result3 by (simp_all add: logged3 del: ws_run.simps One_nat_def)
  let ?calls = "[Call_open (WebSocketHandler_initialize (sample_ws_handler 2 False)
                              (sample_core\<lparr>library := ''other_actor.library''\<rparr>)),
                 Call_open (WebSocketHandler_initialize (sample_ws_handler 3 True) sample_core)]"
  have registered: "clients (ws_run ?calls class_body_state) = [2, 3]"
    by (simp add: class_body_state_def sample_ws_handler_def WebSocketHandler_open_def
        WebSocketHandler_initialize_def emit_def set_add_def Let_def)
  have logged: "filter is_written (trace (ws_run ?calls class_body_state)) = []"
    by (simp add: class_body_state_def sample_ws_handler_def WebSocketHandler_open_def
        WebSocketHandler_initialize_def emit_def set_add_def Let_def)
  have w2: "write_message sample_env 2 ''event'' = Inr False"
    and w3: "write_message sample_env 3 ''event'' = Inr False"
    by (simp_all add: sample_env_def)
  have all_return: "\<forall>c \<in> set (clients (ws_run ?calls class_body_state)).
      \<exists>r. write_message sample_env c ''event'' = Inr r"
    unfolding registered using w2 w3 by auto
  from shared_registry_broadcast
      [where calls = ?calls and env = sample_env and msg = "''event''"]
    all_return
  have result: "WebSocketHandler_broadcast sample_env ''event'' (ws_run ?calls class_body_state) =
      (None, (ws_run ?calls class_body_state)
         \<lparr>trace := trace (ws_run ?calls class_body_state)
            @ map (\<lambda>c. Write_message c ''event'') (clients (ws_run ?calls class_body_state))\<rparr>)"
    by blast
  have "fst (WebSocketHandler_broadcast sample_env ''event'' (ws_run ?calls class_body_state)) = None"
    and "filter is_written (trace (snd (WebSocketHandler_broadcast sample_env ''event''
        (ws_run ?calls class_body_state)))) = [Write_message 2 ''event'', Write_message 3 ''event'']"
    unfolding result by (simp_all add: logged registered del: ws_run.simps)
  with registered w2 w3 w1 registered3 stopped show ?thesis by simp
qed

text \<open>
  C9 as the specification words it fails: \<^verbatim>\<open>broadcast\<close> does not reach every open
  connection. Handlers of two core actors register connections 1 and 2, and the write to
  connection 1 raises. In whichever order the two have registered, \<^verbatim>\<open>broadcast\<close> ends
  with the exception and a registered connection has not been written to; when connection
  1 comes first it is connection 2, whose write would have returned.
\<close>

theorem broadcast_misses_registered_connection:
  "write_message sample_env 2 ''event'' = Inr False
   \<and> clients (ws_run [Call_open (WebSocketHandler_initialize (sample_ws_handler 1 True) sample_core),
                      Call_open (WebSocketHandler_initialize (sample_ws_handler 2 True)
                                   (sample_core\<lparr>library := ''other_actor.library''\<rparr>))]
                class_body_state) = [1, 2]
   \<and> fst (WebSocketHandler_broadcast sample_env ''event''
        (ws_run [Call_open (WebSocketHandler_initialize (sample_ws_handler 1 True) sample_core),
                 Call_open (WebSocketHandler_initialize (sample_ws_handler 2 True)
                              (sample_core\<lparr>library := ''other_actor.library''\<rparr>))]
           class_body_state)) = Some (Exception_instance ''WebSocketClosedError'')
   \<and> Write_message 2 ''event'' \<notin> set (trace (snd (WebSocketHandler_broadcast sample_env ''event''
        (ws_run [Call_open (WebSocketHandler_initialize (sample_ws_handler 1 True) sample_core),
                 Call_open (WebSocketHandler_initialize (sample_ws_handler 2 True)
                              (sample_core\<lparr>library := ''other_actor.library''\<rparr>))]
           class_body_state))))
   \<and> fst (WebSocketHandler_broadcast sample_env ''event''
        (ws_run [Call_open (WebSocketHandler_initialize (sample_ws_handler 2 True)
                              (sample_core\<lparr>library := ''other_actor.library''\<rparr>)),
                 Call_open (WebSocketHandler_initialize (sample_ws_handler 1 True) sample_core)]
           class_body_state)) = Some (Exception_instance ''WebSocketClosedError'')
   \<and> Write_message 1 ''event'' \<notin> set (trace (snd (WebSocketHandler_broadcast sample_env ''event''
        (ws_run [Call_open (WebSocketHandler_initialize (sample_ws_handler 2 True)
                              (sample_core\<lparr>library := ''other_actor.library''\<rparr>)),
                 Call_open (WebSocketHandler_initialize (sample_ws_handler 1 True) sample_core)]
           class_body_state))))"
  by (simp add: class_body_state_def sample_ws_handler_def WebSocketHandler_open_def
        WebSocketHandler_initialize_def WebSocketHandler_broadcast_def sample_env_def
        emit_def set_add_def Let_def)

section \<open>Inbound WebSocket messages\<close>

text \<open>
  C3. A non-empty message is being handled and converting it, dispatching it or writing
  the response raises an instance of \<^verbatim>\<open>Exception\<close>. Then \<^verbatim>\<open>on_message\<close> returns
  without an exception; after the dispatcher call, if it was reached, it logs the error and
  then calls \<^verbatim>\<open>close\<close> exactly when \<^verbatim>\<open>ws_connection\<close> is set. Nothing is written
  to the connection and the registry is as before.
\<close>

theorem on_message_contains_failure:
  assumes "message \<noteq> []"
    and "isinstance_Exception e"
    and "native_str env message = Inl e
         \<or> (\<exists>str. native_str env message = Inr str
               \<and> (handle_json env (jsonrpc self) str = Inl e
                    \<or> (\<exists>response. handle_json env (jsonrpc self) str = Inr (Some response)
                          \<and> response \<noteq> []
                          \<and> write_message env (hid self) response = Inl e)))"
  shows "WebSocketHandler_on_message env self message s =
     (None, s\<lparr>trace := trace s
        @ Log_debug ''Received WebSocket message from %s: %r'' [remote_ip self, message]
        # (case native_str env message of Inl _ \<Rightarrow> [] | Inr str \<Rightarrow> [Handle_json str])
        @ Log_error ''WebSocket request error: %s'' [exc_str e]
        # (if ws_connection self then [Close_connection (hid self)] else [])\<rparr>)"
proof -
  let ?s1 = "emit (Log_debug ''Received WebSocket message from %s: %r''
                     [remote_ip self, message]) s"
  have raised: "on_message_try env self message ?s1 =
      (Some e, s\<lparr>trace := trace s
        @ Log_debug ''Received WebSocket message from %s: %r'' [remote_ip self, message]
        # (case native_str env message of Inl _ \<Rightarrow> [] | Inr str \<Rightarrow> [Handle_json str])\<rparr>)"
    using assms(3) by (auto simp: on_message_try_def emit_def Let_def)
  show ?thesis
    using assms(1,2)
    by (simp add: WebSocketHandler_on_message_def Let_def raised [unfolded emit_def] emit_def)
qed

theorem on_message_contains_failure_witness:
  "WebSocketHandler_on_message sample_env (sample_ws_handler 2 True) ''boom''
       \<lparr>clients = [2], trace = []\<rparr> =
     (None, \<lparr>clients = [2], trace =
        [Log_debug ''Received WebSocket message from %s: %r'' [''127.0.0.1'', ''boom''],
         Handle_json ''boom'',
         Log_error ''WebSocket request error: %s'' [''KeyError: boom''],
         Close_connection 2]\<rparr>)
   \<and> WebSocketHandler_on_message sample_env (sample_ws_handler 1 False) ''ping''
       \<lparr>clients = [1], trace = []\<rparr> =
     (None, \<lparr>clients = [1], trace =
        [Log_debug ''Received WebSocket message from %s: %r'' [''127.0.0.1'', ''ping''],
         Handle_json ''ping'',
         Log_error ''WebSocket request error: %s'' [''WebSocketClosedError'']]\<rparr>)"
proof -
  have dispatch_raises: "native_str sample_env ''boom'' = Inr ''boom''
      \<and> handle_json sample_env (jsonrpc (sample_ws_handler 2 True)) ''boom'' =
          Inl (Exception_instance ''KeyError: boom'')"
    by (simp add: sample_env_def)
  have write_raises: "native_str sample_env ''ping'' = Inr ''ping''
      \<and> handle_json sample_env (jsonrpc (sample_ws_handler 1 False)) ''ping'' = Inr (Some ''pong'')
      \<and> write_message sample_env (hid (sample_ws_handler 1 False)) ''pong'' =
          Inl (Exception_instance ''WebSocketClosedError'')"
    by (simp add: sample_env_def sample_ws_handler_def)
  have first: "WebSocketHandler_on_message sample_env (sample_ws_handler 2 True) ''boom''
       \<lparr>clients = [2], trace = []\<rparr> =
     (None, \<lparr>clients = [2], trace =
        [Log_debug ''Received WebSocket message from %s: %r'' [''127.0.0.1'', ''boom''],
         Handle_json ''boom'',
         Log_error ''WebSocket request error: %s'' [''KeyError: boom''],
         Close_connection 2]\<rparr>)"
    using on_message_contains_failure
      [where message = "''boom''" and e = "Exception_instance ''KeyError: boom''"
         and env = sample_env and self = "sample_ws_handler 2 True"
         and s = "\<lparr>clients = [2], trace = []\<rparr>"]
      dispatch_raises
    by (simp add: sample_ws_handler_def)
  have second: "WebSocketHandler_on_message sample_env (sample_ws_handler 1 False) ''ping''
       \<lparr>clients = [1], trace = []\<rparr> =
     (None, \<lparr>clients = [1], trace =
        [Log_debug ''Received WebSocket message from %s: %r'' [''127.0.0.1'', ''ping''],
         Handle_json ''ping'',
         Log_error ''WebSocket request error: %s'' [''WebSocketClosedError'']]\<rparr>)"
    using on_message_contains_failure
      [where message = "''ping''" and e = "Exception_instance ''WebSocketClosedError''"
         and env = sample_env and self = "sample_ws_handler 1 False"
         and s = "\<lparr>clients = [1], trace = []\<rparr>"]
      write_raises
    by (simp add: sample_ws_handler_def)
  from first second show ?thesis by simp
qed

section \<open>Empty payloads\<close>

text \<open>
  C4. An empty WebSocket message and a POST whose body is empty change nothing and
  raise nothing: \<^verbatim>\<open>on_message\<close> and \<^verbatim>\<open>post\<close> return with the state they were given,
  so the dispatcher has not been called and nothing has been written, logged or set.
\<close>

theorem empty_payload_is_noop:
  "WebSocketHandler_on_message env ws_self [] s = (None, s)
   \<and> JsonRpcHandler_post env (rpc_self\<lparr>request_body := []\<rparr>) tr = (None, tr)"
  by (simp add: WebSocketHandler_on_message_def JsonRpcHandler_post_def)

section \<open>The request/response adapter\<close>

lemma set_extra_headers_list:
  "set_extra_headers env tr =
     tr @ [Set_header ''Cache-Control'' ''no-cache'',
           Set_header ''X-Mopidy-Version'' (mopidy_version env),
           Set_header ''Accept'' ''application/json'',
           Set_header ''Content-Type'' ''application/json; utf-8'']"
  by (simp add: set_extra_headers_def set_mopidy_headers_def)

text \<open>
  A POST with a non-empty body is being handled and converting the body, dispatching
  it or writing the response raises an instance of \<^verbatim>\<open>Exception\<close>. Then \<^verbatim>\<open>post\<close>
  returns without an exception, having logged the error and called
  \<^verbatim>\<open>write_error(500)\<close>. What went to the response is the four headers and that call:
  the exception and its text go to the log only.
\<close>

lemma post_failure_trace:
  assumes "request_body self \<noteq> []"
    and "isinstance_Exception e"
    and "native_str env (request_body self) = Inl e
         \<or> (\<exists>str. native_str env (request_body self) = Inr str
               \<and> (handle_json env (rpc_jsonrpc self) str = Inl e
                    \<or> (\<exists>response. handle_json env (rpc_jsonrpc self) str = Inr (Some response)
                          \<and> response \<noteq> []
                          \<and> write_body env response = Inl e)))"
  shows "JsonRpcHandler_post env self tr =
     (None, tr
        @ Log_debug ''Received RPC message from %s: %r'' [request_remote_ip self, request_body self]
        # set_extra_headers env []
        @ (case native_str env (request_body self) of Inl _ \<Rightarrow> [] | Inr str \<Rightarrow> [Handle_json str])
        @ [Log_error ''HTTP JSON-RPC request error: %s'' [exc_str e], Write_error 500])
   \<and> filter response_event (drop (length tr) (snd (JsonRpcHandler_post env self tr))) =
       set_extra_headers env [] @ [Write_error 500]"
proof -
  let ?tr1 = "tr @ [Log_debug ''Received RPC message from %s: %r''
                      [request_remote_ip self, request_body self]]"
  have raised: "post_try env self (request_body self) ?tr1 =
      (Some e, ?tr1 @ set_extra_headers env []
         @ (case native_str env (request_body self) of Inl _ \<Rightarrow> [] | Inr str \<Rightarrow> [Handle_json str]))"
    using assms(3) by (auto simp: post_try_def set_extra_headers_list Let_def)
  have result: "JsonRpcHandler_post env self tr =
     (None, tr
        @ Log_debug ''Received RPC message from %s: %r'' [request_remote_ip self, request_body self]
        # set_extra_headers env []
        @ (case native_str env (request_body self) of Inl _ \<Rightarrow> [] | Inr str \<Rightarrow> [Handle_json str])
        @ [Log_error ''HTTP JSON-RPC request error: %s'' [exc_str e], Write_error 500])"
    using assms(1,2) by (simp add: JsonRpcHandler_post_def Let_def raised)
  have "filter response_event (drop (length tr) (snd (JsonRpcHandler_post env self tr))) =
       set_extra_headers env [] @ [Write_error 500]"
    unfolding result by (simp add: set_extra_headers_list split: sum.split)
  with result show ?thesis by simp
qed

text \<open>
  C5. The body \<open>''boom''\<close> makes the dispatcher raise. \<^verbatim>\<open>post\<close> logs the error and
  calls \<^verbatim>\<open>write_error(500)\<close>, and these are all its calls: the exception text is in
  the log and not in the response, and the status of the response is never set. Tornado's
  \<^verbatim>\<open>write_error\<close> writes the error page and leaves the status as it is, 200, which
  \<^verbatim>\<open>set_status\<close> or \<^verbatim>\<open>send_error\<close> would have changed; the response is not the 500
  the handler asks the page for.
\<close>

theorem post_failure_calls_write_error_only:
  "JsonRpcHandler_post sample_env (sample_rpc_handler ''boom'') [] =
     (None,
      [Log_debug ''Received RPC message from %s: %r'' [''127.0.0.1'', ''boom''],
       Set_header ''Cache-Control'' ''no-cache'',
       Set_header ''X-Mopidy-Version'' ''0.19.4'',
       Set_header ''Accept'' ''application/json'',
       Set_header ''Content-Type'' ''application/json; utf-8'',
       Handle_json ''boom'',
       Log_error ''HTTP JSON-RPC request error: %s'' [''KeyError: boom''],
       Write_error 500])"
proof -
  have dispatch_raises: "native_str sample_env ''boom'' = Inr ''boom''
      \<and> handle_json sample_env (rpc_jsonrpc (sample_rpc_handler ''boom'')) ''boom'' =
          Inl (Exception_instance ''KeyError: boom'')"
    by (simp add: sample_env_def)
  have body: "request_body (sample_rpc_handler ''boom'') = ''boom''"
    by (simp add: sample_rpc_handler_def)
  show ?thesis
    using post_failure_trace
      [where self = "sample_rpc_handler ''boom''" and env = sample_env
         and e = "Exception_instance ''KeyError: boom''" and tr = "[]"]
      dispatch_raises body
    by (simp add: set_extra_headers_list) (simp add: sample_env_def sample_rpc_handler_def)
qed

text \<open>
  C6. \<^verbatim>\<open>head\<close> sets \<^verbatim>\<open>Cache-Control\<close>, \<^verbatim>\<open>X-Mopidy-Version\<close>, \<^verbatim>\<open>Accept\<close> and
  \<^verbatim>\<open>Content-Type\<close>, finishes the response and returns. It makes no other call: the
  dispatcher is not invoked and no body is written.
\<close>

theorem head_sets_headers_only:
  "JsonRpcHandler_head env self tr =
     (None, tr @ [Set_header ''Cache-Control'' ''no-cache'',
                  Set_header ''X-Mopidy-Version'' (mopidy_version env),
                  Set_header ''Accept'' ''application/json'',
                  Set_header ''Content-Type'' ''application/json; utf-8'',
                  Finish])
   \<and> filter is_Handle_json (drop (length tr) (snd (JsonRpcHandler_head env self tr))) = []
   \<and> filter is_written (drop (length tr) (snd (JsonRpcHandler_head env self tr))) = []"
  by (simp add: JsonRpcHandler_head_def set_extra_headers_list)

lemma post_sets_headers_first:
  "request_body self \<noteq> [] \<Longrightarrow>
     \<exists>rest. snd (JsonRpcHandler_post env self tr) =
        tr @ Log_debug ''Received RPC message from %s: %r''
               [request_remote_ip self, request_body self]
           # set_extra_headers env [] @ rest
        \<and> filter (\<lambda>ev. case ev of Set_header _ _ \<Rightarrow> True | _ \<Rightarrow> False) rest = []"
  by (simp add: JsonRpcHandler_post_def post_try_def set_extra_headers_list Let_def
        split: sum.split option.split)

lemma header_value_no_later_header:
  "filter (\<lambda>ev. case ev of Set_header _ _ \<Rightarrow> True | _ \<Rightarrow> False) rest = [] \<Longrightarrow>
     header_value (evs @ rest) name = header_value evs name"
proof (induction evs)
  case Nil
  then show ?case
  proof (induction rest)
    case Nil
    show ?case by simp
  next
    case (Cons ev rest)
    then show ?case by (cases ev) (simp_all split: if_splits)
  qed
next
  case (Cons ev evs)
  then show ?case by (cases ev) simp_all
qed

text \<open>
  C7, as the code has it. The response to a HEAD request and the response to a POST with a
  non-empty body, whatever becomes of the dispatch (the error case included), have
  \<^verbatim>\<open>Cache-Control\<close> set to \<^verbatim>\<open>no-cache\<close> and \<^verbatim>\<open>X-Mopidy-Version\<close> set to the version
  of the package. A POST with an empty body returns before any header is set.
\<close>

theorem mopidy_headers_on_head_and_nonempty_post:
  "(\<exists>new. snd (JsonRpcHandler_head env self tr) = tr @ new
        \<and> header_value new ''Cache-Control'' = Some ''no-cache''
        \<and> header_value new ''X-Mopidy-Version'' = Some (mopidy_version env))
   \<and> (request_body self \<noteq> [] \<longrightarrow>
        (\<exists>new. snd (JsonRpcHandler_post env self tr) = tr @ new
           \<and> header_value new ''Cache-Control'' = Some ''no-cache''
           \<and> header_value new ''X-Mopidy-Version'' = Some (mopidy_version env)))
   \<and> snd (JsonRpcHandler_post env (self\<lparr>request_body := []\<rparr>) tr) = tr"
proof (intro conjI impI)
  show "\<exists>new. snd (JsonRpcHandler_head env self tr) = tr @ new
        \<and> header_value new ''Cache-Control'' = Some ''no-cache''
        \<and> header_value new ''X-Mopidy-Version'' = Some (mopidy_version env)"
    by (simp add: JsonRpcHandler_head_def set_extra_headers_list)
next
  assume "request_body self \<noteq> []"
  then obtain rest where post: "snd (JsonRpcHandler_post env self tr) =
        tr @ Log_debug ''Received RPC message from %s: %r''
               [request_remote_ip self, request_body self]
           # set_extra_headers env [] @ rest"
    and rest: "filter (\<lambda>ev. case ev of Set_header _ _ \<Rightarrow> True | _ \<Rightarrow> False) rest = []"
    using post_sets_headers_first [of self env tr] by blast
  let ?new = "(Log_debug ''Received RPC message from %s: %r''
                 [request_remote_ip self, request_body self]
               # set_extra_headers env []) @ rest"
  have "header_value ?new ''Cache-Control'' = Some ''no-cache''"
    and "header_value ?new ''X-Mopidy-Version'' = Some (mopidy_version env)"
    by (simp_all only: header_value_no_later_header [OF rest])
       (simp_all add: set_extra_headers_list)
  with post show "\<exists>new. snd (JsonRpcHandler_post env self tr) = tr @ new
           \<and> header_value new ''Cache-Control'' = Some ''no-cache''
           \<and> header_value new ''X-Mopidy-Version'' = Some (mopidy_version env)"
    by (intro exI [of _ ?new]) simp
next
  show "snd (JsonRpcHandler_post env (self\<lparr>request_body := []\<rparr>) tr) = tr"
    by (simp add: JsonRpcHandler_post_def)
qed

theorem mopidy_headers_on_head_and_nonempty_post_witness:
  "request_body (sample_rpc_handler ''boom'') \<noteq> []
   \<and> header_value (snd (JsonRpcHandler_post sample_env (sample_rpc_handler ''boom'') []))
       ''Cache-Control'' = Some ''no-cache''
   \<and> header_value (snd (JsonRpcHandler_post sample_env (sample_rpc_handler ''boom'') []))
       ''X-Mopidy-Version'' = Some ''0.19.4''
   \<and> header_value (snd (JsonRpcHandler_post sample_env (sample_rpc_handler ''ping'') []))
       ''X-Mopidy-Version'' = Some ''0.19.4''"
proof -
  have nonempty: "request_body (sample_rpc_handler ''boom'') \<noteq> []"
    "request_body (sample_rpc_handler ''ping'') \<noteq> []"
    by (simp_all add: sample_rpc_handler_def)
  have version: "mopidy_version sample_env = ''0.19.4''"
    by (simp add: sample_env_def)
  from nonempty version
    mopidy_headers_on_head_and_nonempty_post
      [where self = "sample_rpc_handler ''boom''" and env = sample_env and tr = "[]"]
    mopidy_headers_on_head_and_nonempty_post
      [where self = "sample_rpc_handler ''ping''" and env = sample_env and tr = "[]"]
  show ?thesis by auto
qed

text \<open>
  The claim as the specification words it fails in the empty-body case it names: a POST
  with an empty body leaves the response without either header.
\<close>

theorem empty_post_sets_no_header:
  "JsonRpcHandler_post sample_env (sample_rpc_handler []) [] = (None, [])
   \<and> header_value (snd (JsonRpcHandler_post sample_env (sample_rpc_handler []) []))
       ''Cache-Control'' = None
   \<and> header_value (snd (JsonRpcHandler_post sample_env (sample_rpc_handler []) []))
       ''X-Mopidy-Version'' = None"
  by (simp add: JsonRpcHandler_post_def sample_rpc_handler_def)

section \<open>The capability table is fixed\<close>

text \<open>
  C8. For every core actor, the wrapper built by \<^verbatim>\<open>make_jsonrpc_wrapper\<close> binds
  exactly the seven names \<^verbatim>\<open>core.describe\<close>, \<^verbatim>\<open>core.get_uri_schemes\<close>,
  \<^verbatim>\<open>core.get_version\<close>, \<^verbatim>\<open>core.library\<close>, \<^verbatim>\<open>core.playback\<close>, \<^verbatim>\<open>core.playlists\<close>
  and \<^verbatim>\<open>core.tracklist\<close>, each once: the first to the inspector's \<^verbatim>\<open>describe\<close>, the
  others to the attribute of that name on the given core actor. The inspector's table has
  the names of the dispatch table without \<^verbatim>\<open>core.describe\<close>, each bound to the class or
  method of \<^verbatim>\<open>mopidy.core\<close> of that name. A handler holds the wrapper its
  \<^verbatim>\<open>initialize\<close> built, no method of this module assigns it again, and every call of
  the dispatcher from \<^verbatim>\<open>on_message\<close> and \<^verbatim>\<open>post\<close> is made on that wrapper: the
  table is a function of the core actor alone, so a name resolves to the same target
  whenever it is looked up.
\<close>

theorem capability_table_is_fixed:
  "distinct (map fst (objects (make_jsonrpc_wrapper core)))
   \<and> fst ` set (objects (make_jsonrpc_wrapper core)) =
       {''core.describe'', ''core.get_uri_schemes'', ''core.get_version'', ''core.library'',
        ''core.playback'', ''core.playlists'', ''core.tracklist''}
   \<and> map_of (objects (make_jsonrpc_wrapper core)) ''core.describe'' =
       Some (Inspector_describe make_inspector)
   \<and> map_of (objects (make_jsonrpc_wrapper core)) ''core.get_uri_schemes'' =
       Some (Actor_target (get_uri_schemes core))
   \<and> map_of (objects (make_jsonrpc_wrapper core)) ''core.get_version'' =
       Some (Actor_target (get_version core))
   \<and> map_of (objects (make_jsonrpc_wrapper core)) ''core.library'' =
       Some (Actor_target (library core))
   \<and> map_of (objects (make_jsonrpc_wrapper core)) ''core.playback'' =
       Some (Actor_target (playback core))
   \<and> map_of (objects (make_jsonrpc_wrapper core)) ''core.playlists'' =
       Some (Actor_target (playlists core))
   \<and> map_of (objects (make_jsonrpc_wrapper core)) ''core.tracklist'' =
       Some (Actor_target (tracklist core))
   \<and> distinct (map fst (inspector_objects make_inspector))
   \<and> fst ` set (inspector_objects make_inspector) =
       fst ` set (objects (make_jsonrpc_wrapper core)) - {''core.describe''}
   \<and> map (map_of (inspector_objects make_inspector))
         [''core.get_uri_schemes'', ''core.get_version'', ''core.library'', ''core.playback'',
          ''core.playlists'', ''core.tracklist''] =
       [Some Core_get_uri_schemes, Some Core_get_version, Some LibraryController,
        Some PlaybackController, Some PlaylistsController, Some TracklistController]
   \<and> jsonrpc (WebSocketHandler_initialize ws_self core) = make_jsonrpc_wrapper core
   \<and> rpc_jsonrpc (JsonRpcHandler_initialize rpc_self core) = make_jsonrpc_wrapper core
   \<and> WebSocketHandler_on_message env (WebSocketHandler_initialize ws_self core) message s =
       WebSocketHandler_on_message
         (env\<lparr>handle_json := \<lambda>w. handle_json env (make_jsonrpc_wrapper core)\<rparr>)
         (WebSocketHandler_initialize ws_self core) message s
   \<and> JsonRpcHandler_post env (JsonRpcHandler_initialize rpc_self core) tr =
       JsonRpcHandler_post
         (env\<lparr>handle_json := \<lambda>w. handle_json env (make_jsonrpc_wrapper core)\<rparr>)
         (JsonRpcHandler_initialize rpc_self core) tr"
proof -
  have names: "map fst (objects (make_jsonrpc_wrapper core)) =
      [''core.describe'', ''core.get_uri_schemes'', ''core.get_version'', ''core.library'',
       ''core.playback'', ''core.playlists'', ''core.tracklist'']"
    by (simp add: make_jsonrpc_wrapper_def)
  have inspector_names: "map fst (inspector_objects make_inspector) =
      [''core.get_uri_schemes'', ''core.get_version'', ''core.library'',
       ''core.playback'', ''core.playlists'', ''core.tracklist'']"
    by (simp add: make_inspector_def)
  have once: "distinct (map fst (objects (make_jsonrpc_wrapper core)))"
    and inspector_once: "distinct (map fst (inspector_objects make_inspector))"
    unfolding names inspector_names by simp_all
  have dom: "fst ` set (objects (make_jsonrpc_wrapper core)) =
       {''core.describe'', ''core.get_uri_schemes'', ''core.get_version'', ''core.library'',
        ''core.playback'', ''core.playlists'', ''core.tracklist''}"
    using names by (simp only: set_map [symmetric]) simp
  have inspector_dom: "fst ` set (inspector_objects make_inspector) =
       fst ` set (objects (make_jsonrpc_wrapper core)) - {''core.describe''}"
    unfolding dom using inspector_names by (simp only: set_map [symmetric]) auto
  have lookups:
    "map_of (objects (make_jsonrpc_wrapper core)) ''core.describe'' =
       Some (Inspector_describe make_inspector)"
    "map_of (objects (make_jsonrpc_wrapper core)) ''core.get_uri_schemes'' =
       Some (Actor_target (get_uri_schemes core))"
    "map_of (objects (make_jsonrpc_wrapper core)) ''core.get_version'' =
       Some (Actor_target (get_version core))"
    "map_of (objects (make_jsonrpc_wrapper core)) ''core.library'' =
       Some (Actor_target (library core))"
    "map_of (objects (make_jsonrpc_wrapper core)) ''core.playback'' =
       Some (Actor_target (playback core))"
    "map_of (objects (make_jsonrpc_wrapper core)) ''core.playlists'' =
       Some (Actor_target (playlists core))"
    "map_of (objects (make_jsonrpc_wrapper core)) ''core.tracklist'' =
       Some (Actor_target (tracklist core))"
    by (simp_all add: make_jsonrpc_wrapper_def)
  have classes: "map (map_of (inspector_objects make_inspector))
         [''core.get_uri_schemes'', ''core.get_version'', ''core.library'', ''core.playback'',
          ''core.playlists'', ''core.tracklist''] =
       [Some Core_get_uri_schemes, Some Core_get_version, Some LibraryController,
        Some PlaybackController, Some PlaylistsController, Some TracklistController]"
    by (simp add: make_inspector_def)
  have held: "jsonrpc (WebSocketHandler_initialize ws_self core) = make_jsonrpc_wrapper core"
    "rpc_jsonrpc (JsonRpcHandler_initialize rpc_self core) = make_jsonrpc_wrapper core"
    by (simp_all add: WebSocketHandler_initialize_def JsonRpcHandler_initialize_def)
  have ws_dispatch:
    "WebSocketHandler_on_message env (WebSocketHandler_initialize ws_self core) message s =
       WebSocketHandler_on_message
         (env\<lparr>handle_json := \<lambda>w. handle_json env (make_jsonrpc_wrapper core)\<rparr>)
         (WebSocketHandler_initialize ws_self core) message s"
    by (simp add: WebSocketHandler_on_message_def on_message_try_def
          WebSocketHandler_initialize_def Let_def split: sum.split option.split)
  have rpc_dispatch:
    "JsonRpcHandler_post env (JsonRpcHandler_initialize rpc_self core) tr =
       JsonRpcHandler_post
         (env\<lparr>handle_json := \<lambda>w. handle_json env (make_jsonrpc_wrapper core)\<rparr>)
         (JsonRpcHandler_initialize rpc_self core) tr"
    by (simp add: JsonRpcHandler_post_def post_try_def JsonRpcHandler_initialize_def
          set_extra_headers_def set_mopidy_headers_def Let_def split: sum.split option.split)
  from once dom lookups inspector_once inspector_dom classes held ws_dispatch rpc_dispatch
  show ?thesis
    by (intro conjI)
qed

section \<open>Origin check\<close>

text \<open>
  C10. \<^verbatim>\<open>WebSocketHandler.check_origin\<close> returns \<^verbatim>\<open>True\<close> for every handler and every
  origin string: no connection is refused because of its origin.
\<close>

theorem check_origin_always_True: "check_origin self origin = True"
  by (simp add: check_origin_def)

end
